theory Spec2Isabelle
  imports Main
begin

section \<open>Python exceptions\<close>

text \<open>
  The exceptions the modelled functions can raise. A function that can raise returns
  the exception as a value, next to the state reached when it was raised.
\<close>

datatype py_error =
    RuntimeError
  | AssertionError
  | ValueError
  | IndexError
  | KeyError
  | AttributeError
  | OSError
  | SpikeSortingError

datatype outcome = Returned | Raised py_error

section \<open>spikewrap/pipeline/sort.py: sorting every run\<close>

type_synonym path = string

text \<open>
  The state \<open>run_sorting\<close> and \<open>run_sorting_on_all_runs\<close> read and write:
  the directories that exist (\<open>output_path.is_dir()\<close>), the directories that were
  deleted, the calls made to the external \<open>ss.run_sorter\<close> (logged by output folder),
  the runs whose sorting info was saved by
  \<open>sorting_data.save_sorting_info\<close>, the process working directory, and the keyword
  arguments handed to \<open>slurm.run_sorting_slurm\<close>.
\<close>

record world =
  dirs :: "path set"
  removed_dirs :: "path list"
  sorter_calls :: "path list"
  saved_sorting_info :: "string option list"
  cwd :: path
  slurm_submissions :: "bool list"

text \<open>
  \<open>SortingData\<close> is not among the sources; what the functions below ask of it are
  fields here: the sorter's name, \<open>base_path\<close>, \<open>sorting_run_names()\<close> (a run name is
  \<open>None\<close> for concatenated data) and \<open>get_sorting_path(run_name)\<close>.
\<close>

record sorting_data =
  sorter :: string
  base_path :: path
  sorting_run_names :: "string option list"
  get_sorting_path :: "string option \<Rightarrow> path"

text \<open>
  The external sorter runtime: for an output folder it either completes, or crashes
  leaving a partial output folder behind (\<open>Crashed True\<close>) or none (\<open>Crashed False\<close>).
\<close>

datatype sorter_result = Completed | Crashed bool

text \<open>
  \<open>ss.run_sorter(..., output_folder=output_path, remove_existing_folder=True, ...)\<close>:
  the call is logged, an existing output folder is deleted first, and the folder exists
  afterwards when the sorter completed. A crash raises.
\<close>

definition remove_existing_folder :: "path \<Rightarrow> world \<Rightarrow> world" where
  "remove_existing_folder output_folder w =
     (if output_folder \<in> dirs w
      then w\<lparr>dirs := dirs w - {output_folder},
             removed_dirs := removed_dirs w @ [output_folder]\<rparr>
      else w)"

definition run_sorter :: "(path \<Rightarrow> sorter_result) \<Rightarrow> path \<Rightarrow> world \<Rightarrow> bool \<times> world" where
  "run_sorter ext output_folder w =
     (let w1 = remove_existing_folder output_folder
                 (w\<lparr>sorter_calls := sorter_calls w @ [output_folder]\<rparr>)
      in case ext output_folder of
           Completed \<Rightarrow> (True, w1\<lparr>dirs := insert output_folder (dirs w1)\<rparr>)
         | Crashed partial \<Rightarrow>
             (False, if partial then w1\<lparr>dirs := insert output_folder (dirs w1)\<rparr> else w1))"

text \<open>
  \<open>quick_safety_check\<close>: two assertions, \<open>None\<close> when both pass.
\<close>

definition quick_safety_check :: "string \<Rightarrow> path \<Rightarrow> world \<Rightarrow> py_error option" where
  "quick_safety_check existing_sorting_output output_path w =
     (if existing_sorting_output = ''fail_if_exists'' then Some AssertionError
      else if existing_sorting_output = ''load_if_exists'' \<and> output_path \<in> dirs w
      then Some AssertionError
      else None)"

text \<open>
  One iteration of the loop of \<open>run_sorting_on_all_runs\<close>: it raises, or reaches
  \<open>continue\<close>, or runs the sorter and saves the sorting info.
\<close>

datatype iteration = Raise py_error | Continue | Sorted

definition sort_and_save ::
  "(path \<Rightarrow> sorter_result) \<Rightarrow> string option \<Rightarrow> path \<Rightarrow> world \<Rightarrow> iteration \<times> world" where
  "sort_and_save ext run_name output_path w =
     (case run_sorter ext output_path w of
        (False, w') \<Rightarrow> (Raise SpikeSortingError, w')
      | (True, w') \<Rightarrow>
          (Sorted, w'\<lparr>saved_sorting_info := saved_sorting_info w' @ [run_name]\<rparr>))"

definition sort_one_run ::
  "(path \<Rightarrow> sorter_result) \<Rightarrow> sorting_data \<Rightarrow> string \<Rightarrow> string option \<Rightarrow> world
     \<Rightarrow> iteration \<times> world" where
  "sort_one_run ext sd existing_sorting_output run_name w =
     (let output_path = get_sorting_path sd run_name
      in if output_path \<in> dirs w then
           (if existing_sorting_output = ''fail_if_exists'' then (Raise RuntimeError, w)
            else if existing_sorting_output = ''load_if_exists'' then (Continue, w)
            else (case quick_safety_check existing_sorting_output output_path w of
                    Some e \<Rightarrow> (Raise e, w)
                  | None \<Rightarrow> sort_and_save ext run_name output_path w))
         else sort_and_save ext run_name output_path w)"

fun sort_runs ::
  "(path \<Rightarrow> sorter_result) \<Rightarrow> sorting_data \<Rightarrow> string \<Rightarrow> string option list \<Rightarrow> world
     \<Rightarrow> outcome \<times> world" where
  "sort_runs ext sd existing_sorting_output [] w = (Returned, w)"
| "sort_runs ext sd existing_sorting_output (run_name # rest) w =
     (case sort_one_run ext sd existing_sorting_output run_name w of
        (Raise e, w') \<Rightarrow> (Raised e, w')
      | (_, w') \<Rightarrow> sort_runs ext sd existing_sorting_output rest w')"

definition run_sorting_on_all_runs ::
  "(path \<Rightarrow> sorter_result) \<Rightarrow> sorting_data \<Rightarrow> string \<Rightarrow> world \<Rightarrow> outcome \<times> world" where
  "run_sorting_on_all_runs ext sd existing_sorting_output w =
     sort_runs ext sd existing_sorting_output (sorting_run_names sd) w"


subsection \<open>Option dictionaries: \<open>validate_inputs\<close> and \<open>run_sorting\<close>\<close>

text \<open>
  \<open>validate_inputs\<close> returns a dictionary that may be an object the caller holds, and
  updates it in place, so dictionaries live in a store: an address is an index into the
  list of allocated dictionaries, and a value is a scalar or a reference.
\<close>

datatype scalar = SBool bool | SInt int | SStr string | SNone

datatype pyval = Scalar scalar | Ref nat

type_synonym dict = "string \<rightharpoonup> pyval"

type_synonym heap = "dict list"

text \<open>\<open>d.update({key: v})\<close> on the dictionary at address \<open>a\<close>.\<close>

definition dict_update :: "nat \<Rightarrow> string \<Rightarrow> pyval \<Rightarrow> heap \<Rightarrow> heap" where
  "dict_update a key v h = h[a := (h ! a)(key \<mapsto> v)]"

definition supported_sorters :: "string list" where
  "supported_sorters =
     [''kilosort2'', ''kilosort2_5'', ''kilosort3'', ''mountainsort5'',
      ''spykingcircus'', ''tridesclous'']"

text \<open>
  \<open>validate_inputs(slurm_batch, sorter, sorter_options, verbose)\<close>. \<open>sorter_options\<close> is
  \<open>None\<close> or the address of a dictionary. The result is the address of the returned
  dictionary and the store after the call. \<open>sorter_options_dict = {}\<close> allocates; the
  name is rebound to \<open>sorter_options[sorter]\<close> when that key is present; \<open>update\<close> on
  a value that is no dictionary raises AttributeError.
\<close>

definition validate_inputs ::
  "bool \<Rightarrow> string \<Rightarrow> nat option \<Rightarrow> bool \<Rightarrow> heap \<Rightarrow> py_error + (nat \<times> heap)" where
  "validate_inputs slurm_batch sorter_name sorter_options verbose h =
     (if slurm_batch \<noteq> False then Inl AssertionError
      else if sorter_name \<notin> set supported_sorters then Inl AssertionError
      else
        let h1 = h @ [Map.empty];
            fresh = Ref (length h);
            sorter_options_dict =
              (case sorter_options of
                 None \<Rightarrow> fresh
               | Some so \<Rightarrow>
                   (if so < length h then
                      (case (h ! so) sorter_name of None \<Rightarrow> fresh | Some v \<Rightarrow> v)
                    else fresh))
        in case sorter_options_dict of
             Ref a \<Rightarrow>
               (if a < length h1
                then Inr (a, dict_update a ''verbose'' (Scalar (SBool verbose)) h1)
                else Inl AttributeError)
           | Scalar _ \<Rightarrow> Inl AttributeError)"

text \<open>\<open>"kilosort" in sorter\<close>: the substring test on strings.\<close>

fun starts_with :: "string \<Rightarrow> string \<Rightarrow> bool" where
  "starts_with [] s = True"
| "starts_with (c # cs) [] = False"
| "starts_with (c # cs) (d # ds) = (c = d \<and> starts_with cs ds)"

fun contains :: "string \<Rightarrow> string \<Rightarrow> bool" where
  "contains sub [] = (sub = [])"
| "contains sub (d # ds) = (starts_with sub (d # ds) \<or> contains sub ds)"

text \<open>
  \<open>run_sorting\<close>, on the \<open>SortingData\<close> it builds from its path arguments. With
  \<open>slurm_batch\<close> set, the copied local variables (\<open>slurm_batch\<close> among them, with the
  value it has) go to \<open>slurm.run_sorting_slurm\<close> and the function returns. Otherwise
  the inputs are validated, the working directory is changed to \<open>base_path\<close>
  (\<open>os.chdir\<close> raises OSError when the directory does not exist), and every run is
  sorted. The logger and the handling of the container image files are left out.
\<close>

definition run_sorting ::
  "(path \<Rightarrow> sorter_result) \<Rightarrow> sorting_data \<Rightarrow> string \<Rightarrow> nat option \<Rightarrow> string \<Rightarrow> bool \<Rightarrow> bool
     \<Rightarrow> heap \<times> world \<Rightarrow> outcome \<times> heap \<times> world" where
  "run_sorting ext sd sorter_name sorter_options existing_sorting_output verbose slurm_batch hw =
     (let h = fst hw; w = snd hw
      in if slurm_batch
         then (Returned, h, w\<lparr>slurm_submissions := slurm_submissions w @ [slurm_batch]\<rparr>)
         else
           (case validate_inputs slurm_batch sorter_name sorter_options verbose h of
              Inl e \<Rightarrow> (Raised e, h, w)
            | Inr (sorter_options_dict, h1) \<Rightarrow>
                (if base_path sd \<notin> dirs w then (Raised OSError, h1, w)
                 else
                   let w1 = w\<lparr>cwd := base_path sd\<rparr>;
                       h2 = (if contains ''kilosort'' sorter_name
                             then dict_update sorter_options_dict ''delete_tmp_files''
                                    (Scalar (SBool False)) h1
                             else h1);
                       r = run_sorting_on_all_runs ext sd existing_sorting_output w1
                   in (fst r, h2, snd r))))"

section \<open>swc\_ephys: batch submission of the full pipeline\<close>

text \<open>Truth value of a scalar, as \<open>if x:\<close> tests it.\<close>

fun truthy :: "scalar \<Rightarrow> bool" where
  "truthy (SBool b) = b"
| "truthy (SInt i) = (i \<noteq> 0)"
| "truthy (SStr s) = (s \<noteq> [])"
| "truthy SNone = False"

text \<open>
  \<open>pipeline/full_pipeline.py\<close>, \<open>run_full_pipeline\<close> up to its assertion: with a true
  \<open>slurm_batch\<close> the copied local variables are submitted and the function returns;
  otherwise \<open>assert slurm_batch is False\<close> is evaluated, and the pipeline runs when it
  holds.
\<close>

datatype entry = Submits scalar | Assertion_fails | Runs_pipeline

definition run_full_pipeline :: "scalar \<Rightarrow> entry" where
  "run_full_pipeline slurm_batch =
     (if truthy slurm_batch then Submits slurm_batch
      else if slurm_batch \<noteq> SBool False then Assertion_fails
      else Runs_pipeline)"

text \<open>
  \<open>utils/slurm.py\<close>: \<open>run_full_pipeline(**kwargs)\<close> submits to the cluster client the
  function that the name \<open>run_full_pipeline\<close> denotes in that module, which is this
  function, with the keyword arguments it received. \<open>breakpoint()\<close> returns when the
  debugger continues. A worker runs a submitted job by calling its function.
\<close>

datatype callable = Slurm_run_full_pipeline

type_synonym kwargs = "(string \<times> scalar) list"

record cluster =
  pending :: "(callable \<times> kwargs) list"
  submissions :: nat

definition slurm_run_full_pipeline :: "kwargs \<Rightarrow> cluster \<Rightarrow> cluster" where
  "slurm_run_full_pipeline kwargs c =
     c\<lparr>pending := pending c @ [(Slurm_run_full_pipeline, kwargs)],
       submissions := Suc (submissions c)\<rparr>"

fun call :: "callable \<Rightarrow> kwargs \<Rightarrow> cluster \<Rightarrow> cluster" where
  "call Slurm_run_full_pipeline kwargs c = slurm_run_full_pipeline kwargs c"

text \<open>The worker takes the oldest pending job and runs it; \<open>n\<close> jobs are run.\<close>

fun run_jobs :: "nat \<Rightarrow> cluster \<Rightarrow> cluster" where
  "run_jobs 0 c = c"
| "run_jobs (Suc n) c =
     (case pending c of
        [] \<Rightarrow> c
      | (f, kwargs) # rest \<Rightarrow> run_jobs n (call f kwargs (c\<lparr>pending := rest\<rparr>)))"


section \<open>spikewrap/utils/\_slurm.py: running a function in SLURM\<close>

text \<open>
  \<open>slurm_opts\<close> is a Boolean or a dictionary of options that overwrite the defaults.
\<close>

datatype slurm_opts = Flag bool | Opts "string \<rightharpoonup> scalar"

text \<open>
  What \<open>run_in_slurm\<close> does to the scheduler and the file system: the log folders it
  makes, the executors it creates (log folder and parameters), the jobs it submits
  (function name, environment name, keyword arguments; a job's handle is its index),
  the handles it waits on, and the start messages it prints.
\<close>

record slurm_state =
  log_folders :: "path list"
  executors :: "(path \<times> (string \<rightharpoonup> scalar)) list"
  jobs :: "(string \<times> scalar \<times> kwargs) list"
  waited_on :: "nat list"
  start_messages :: "(string \<times> nat) list"

definition make_job_log_output_path :: "string \<Rightarrow> path \<Rightarrow> slurm_state \<Rightarrow> path \<times> slurm_state" where
  "make_job_log_output_path now log_base_path st =
     (let log_path = log_base_path @ ''/slurm_logs/'' @ now
      in (log_path, st\<lparr>log_folders := log_folders st @ [log_path]\<rparr>))"

definition get_executor ::
  "path \<Rightarrow> (string \<rightharpoonup> scalar) \<Rightarrow> slurm_state \<Rightarrow> slurm_state" where
  "get_executor log_path opts st = st\<lparr>executors := executors st @ [(log_path, opts)]\<rparr>"

definition submit ::
  "string \<Rightarrow> scalar \<Rightarrow> kwargs \<Rightarrow> slurm_state \<Rightarrow> nat \<times> slurm_state" where
  "submit func_to_run env_name func_opts st =
     (length (jobs st), st\<lparr>jobs := jobs st @ [(func_to_run, env_name, func_opts)]\<rparr>)"

definition wait :: "nat \<Rightarrow> slurm_state \<Rightarrow> slurm_state" where
  "wait job st = st\<lparr>waited_on := waited_on st @ [job]\<rparr>"

definition send_user_start_message :: "string \<Rightarrow> nat \<Rightarrow> slurm_state \<Rightarrow> slurm_state" where
  "send_user_start_message processing_function job st =
     st\<lparr>start_messages := start_messages st @ [(processing_function, job)]\<rparr>"

text \<open>
  \<open>run_in_slurm(slurm_opts, func_to_run, func_opts, log_base_path)\<close>. The result of
  \<open>is_slurm_installed()\<close>, the dictionary \<open>default_slurm_options()\<close> (its module is
  not among the sources) and the clock reading are parameters. \<open>pop\<close> of a
  missing key raises KeyError. The value of a call that does not raise is \<open>None\<close> or
  a job handle; the function has no \<open>return\<close> statement, so it is \<open>None\<close>.
\<close>

definition run_in_slurm ::
  "bool \<Rightarrow> (string \<rightharpoonup> scalar) \<Rightarrow> string \<Rightarrow> slurm_opts \<Rightarrow> string \<Rightarrow> kwargs \<Rightarrow> path
     \<Rightarrow> slurm_state \<Rightarrow> (py_error + nat option) \<times> slurm_state" where
  "run_in_slurm is_slurm_installed default_slurm_options now slurm_opts func_to_run func_opts
       log_base_path st =
     (if \<not> is_slurm_installed then (Inl RuntimeError, st)
      else
        let used_slurm_opts =
              (case slurm_opts of
                 Opts d \<Rightarrow> default_slurm_options ++ d
               | Flag _ \<Rightarrow> default_slurm_options)
        in case used_slurm_opts ''wait'' of
             None \<Rightarrow> (Inl KeyError, st)
           | Some should_wait \<Rightarrow>
               (let opts1 = used_slurm_opts(''wait'' := None)
                in case opts1 ''env_name'' of
                     None \<Rightarrow> (Inl KeyError, st)
                   | Some env_name \<Rightarrow>
                       (let opts2 = opts1(''env_name'' := None);
                            (log_path, st1) = make_job_log_output_path now log_base_path st;
                            st2 = get_executor log_path opts2 st1;
                            (job, st3) = submit func_to_run env_name func_opts st2;
                            st4 = (if truthy should_wait then wait job st3 else st3)
                        in (Inr None, send_user_start_message func_to_run job st4))))"

section \<open>swc\_ephys/utils/utils.py: paths in datetime order\<close>

text \<open>
  The two time stamps of a file that \<open>os.path.getctime\<close> and \<open>os.path.getmtime\<close>
  read, as integers (the order of the stamps is all that is used). Both raise OSError for
  a path that does not exist.
\<close>

record file_times =
  ctime :: int
  mtime :: int

type_synonym file_system = "path \<rightharpoonup> file_times"

definition getctime :: "file_system \<Rightarrow> path \<Rightarrow> py_error + int" where
  "getctime fs p = (case fs p of None \<Rightarrow> Inl OSError | Some t \<Rightarrow> Inr (ctime t))"

definition getmtime :: "file_system \<Rightarrow> path \<Rightarrow> py_error + int" where
  "getmtime fs p = (case fs p of None \<Rightarrow> Inl OSError | Some t \<Rightarrow> Inr (mtime t))"

text \<open>
  \<open>xs.sort(key=f)\<close> on a copy: the key of every element is computed first (the first key
  that raises ends the call), then the elements are sorted by key, stably.
\<close>

fun decorate :: "('a \<Rightarrow> py_error + int) \<Rightarrow> 'a list \<Rightarrow> py_error + (int \<times> 'a) list" where
  "decorate key [] = Inr []"
| "decorate key (x # xs) =
     (case key x of
        Inl e \<Rightarrow> Inl e
      | Inr k \<Rightarrow> (case decorate key xs of Inl e \<Rightarrow> Inl e | Inr ds \<Rightarrow> Inr ((k, x) # ds)))"

definition sorted_copy :: "('a \<Rightarrow> py_error + int) \<Rightarrow> 'a list \<Rightarrow> py_error + 'a list" where
  "sorted_copy key xs =
     (case decorate key xs of Inl e \<Rightarrow> Inl e | Inr ds \<Rightarrow> Inr (map snd (sort_key fst ds)))"

definition sort_list_of_paths_by_datetime_order ::
  "file_system \<Rightarrow> path list \<Rightarrow> py_error + path list" where
  "sort_list_of_paths_by_datetime_order fs list_of_paths =
     sorted_copy (getctime fs) list_of_paths"

definition list_of_files_are_in_datetime_order ::
  "file_system \<Rightarrow> path list \<Rightarrow> string \<Rightarrow> py_error + bool" where
  "list_of_files_are_in_datetime_order fs list_of_paths creation_or_modification =
     (if creation_or_modification \<notin> set [''creation'', ''modification'']
      then Inl AssertionError
      else
        case sorted_copy
               (if creation_or_modification = ''creation'' then getmtime fs else getctime fs)
               list_of_paths of
          Inl e \<Rightarrow> Inl e
        | Inr list_of_paths_by_time \<Rightarrow> Inr (list_of_paths = list_of_paths_by_time))"


section \<open>Resolving a preprocessing step number\<close>

text \<open>
  \<open>int\<close> of a string of decimal digits and \<open>str\<close> of a natural number. A string
  that is empty or holds another character is a ValueError. (Python's \<open>int\<close> also
  takes a sign, surrounding white space and underscores between digits; such strings
  are rejected here.)
\<close>

definition digit_of :: "char \<Rightarrow> nat option" where
  "digit_of = map_of (zip ''0123456789'' [0, 1, 2, 3, 4, 5, 6, 7, 8, 9])"

fun int_of_digits :: "nat \<Rightarrow> string \<Rightarrow> nat option" where
  "int_of_digits acc [] = Some acc"
| "int_of_digits acc (c # cs) =
     (case digit_of c of None \<Rightarrow> None | Some d \<Rightarrow> int_of_digits (10 * acc + d) cs)"

definition py_int :: "string \<Rightarrow> py_error + nat" where
  "py_int s =
     (if s = [] then Inl ValueError
      else case int_of_digits 0 s of None \<Rightarrow> Inl ValueError | Some n \<Rightarrow> Inr n)"

definition digit_char :: "nat \<Rightarrow> char" where
  "digit_char d = ''0123456789'' ! d"

fun py_str :: "nat \<Rightarrow> string" where
  "py_str n = (if n < 10 then [digit_char n] else py_str (n div 10) @ [digit_char (n mod 10)])"

declare py_str.simps [simp del]

text \<open>\<open>np.max\<close> of a list that is not empty.\<close>

fun list_max :: "nat list \<Rightarrow> nat" where
  "list_max [] = 0"
| "list_max [x] = x"
| "list_max (x # y # ys) = max x (list_max (y # ys))"

text \<open>
  The step \<open>"last"\<close>, common to both versions: the largest key number as a string,
  after the assertion that it equals the number of keys minus one. \<open>np.max\<close> of an empty
  list raises ValueError.
\<close>

definition last_step_num :: "nat list \<Rightarrow> nat \<Rightarrow> py_error + string" where
  "last_step_num pp_key_nums n_keys =
     (if pp_key_nums = [] then Inl ValueError
      else
        let step_num = py_str (list_max pp_key_nums)
        in case py_int step_num of
             Inl e \<Rightarrow> Inl e
           | Inr n \<Rightarrow> if int n = int n_keys - 1 then Inr step_num else Inl AssertionError)"

text \<open>
  The preprocessing data is a dictionary: a list of key and value in insertion order.
  \<open>data[pp_key]\<close> raises KeyError for a missing key.
\<close>

definition getitem :: "(string \<times> 'a) list \<Rightarrow> string \<Rightarrow> py_error + 'a" where
  "getitem data key = (case map_of data key of None \<Rightarrow> Inl KeyError | Some v \<Rightarrow> Inr v)"

subsection \<open>swc\_ephys/utils/utils.py\<close>

text \<open>
  \<open>get_keys_first_char(data, as_int=True)\<close>: \<open>int(key[0])\<close> for every key. \<open>key[0]\<close>
  of an empty key raises IndexError.
\<close>

fun get_keys_first_char_swc_ephys :: "string list \<Rightarrow> py_error + nat list" where
  "get_keys_first_char_swc_ephys [] = Inr []"
| "get_keys_first_char_swc_ephys (key # keys) =
     (case key of
        [] \<Rightarrow> Inl IndexError
      | c # _ \<Rightarrow>
          (case py_int [c] of
             Inl e \<Rightarrow> Inl e
           | Inr d \<Rightarrow>
               (case get_keys_first_char_swc_ephys keys of
                  Inl e \<Rightarrow> Inl e
                | Inr ds \<Rightarrow> Inr (d # ds))))"

text \<open>\<open>[key for key in data.keys() if key[0] == step_num]\<close>\<close>

fun select_by_first_char :: "string \<Rightarrow> string list \<Rightarrow> py_error + string list" where
  "select_by_first_char step_num [] = Inr []"
| "select_by_first_char step_num (key # keys) =
     (case key of
        [] \<Rightarrow> Inl IndexError
      | c # _ \<Rightarrow>
          (case select_by_first_char step_num keys of
             Inl e \<Rightarrow> Inl e
           | Inr ks \<Rightarrow> Inr (if [c] = step_num then key # ks else ks)))"

definition get_dict_value_from_step_num_swc_ephys ::
  "(string \<times> 'a) list \<Rightarrow> string \<Rightarrow> py_error + ('a \<times> string)" where
  "get_dict_value_from_step_num_swc_ephys data step_num =
     (let keys = map fst data
      in case (if step_num = ''last''
               then (case get_keys_first_char_swc_ephys keys of
                       Inl e \<Rightarrow> Inl e
                     | Inr pp_key_nums \<Rightarrow> last_step_num pp_key_nums (length keys))
               else Inr step_num) of
           Inl e \<Rightarrow> Inl e
         | Inr step \<Rightarrow>
             (case select_by_first_char step keys of
                Inl e \<Rightarrow> Inl e
              | Inr select_step_pp_key \<Rightarrow>
                  (if length select_step_pp_key \<noteq> 1 then Inl AssertionError
                   else
                     let pp_key = hd select_step_pp_key
                     in case getitem data pp_key of
                          Inl e \<Rightarrow> Inl e
                        | Inr v \<Rightarrow> Inr (v, pp_key))))"

subsection \<open>spikewrap/utils/utils.py\<close>

text \<open>\<open>key.split("-")[0]\<close>: the key up to its first hyphen.\<close>

definition split_first :: "string \<Rightarrow> string" where
  "split_first key = takeWhile (\<lambda>c. c \<noteq> CHR ''-'') key"

text \<open>\<open>get_keys_first_char(data, as_int=True)\<close>: \<open>int(key.split("-")[0])\<close> for every key.\<close>

fun get_keys_first_char_spikewrap :: "string list \<Rightarrow> py_error + nat list" where
  "get_keys_first_char_spikewrap [] = Inr []"
| "get_keys_first_char_spikewrap (key # keys) =
     (case py_int (split_first key) of
        Inl e \<Rightarrow> Inl e
      | Inr d \<Rightarrow>
          (case get_keys_first_char_spikewrap keys of
             Inl e \<Rightarrow> Inl e
           | Inr ds \<Rightarrow> Inr (d # ds)))"

text \<open>
  In this version the assertion that one key was selected stands in a \<open>try\<close> whose bare
  \<open>except\<close> calls \<open>breakpoint()\<close>; execution goes on after it with
  \<open>select_step_pp_key[0]\<close>, which raises IndexError when no key was selected.
\<close>

definition get_dict_value_from_step_num_spikewrap ::
  "(string \<times> 'a) list \<Rightarrow> string \<Rightarrow> py_error + ('a \<times> string)" where
  "get_dict_value_from_step_num_spikewrap data step_num =
     (let keys = map fst data
      in case (if step_num = ''last''
               then (case get_keys_first_char_spikewrap keys of
                       Inl e \<Rightarrow> Inl e
                     | Inr pp_key_nums \<Rightarrow> last_step_num pp_key_nums (length keys))
               else Inr step_num) of
           Inl e \<Rightarrow> Inl e
         | Inr step \<Rightarrow>
             (case filter (\<lambda>key. split_first key = step) keys of
                [] \<Rightarrow> Inl IndexError
              | pp_key # _ \<Rightarrow>
                  (case getitem data pp_key of
                     Inl e \<Rightarrow> Inl e
                   | Inr v \<Rightarrow> Inr (v, pp_key))))"

section \<open>swc\_ephys/pipeline/sort.py: existing preprocessed data\<close>

text \<open>
  \<open>get_data_and_recording(data, use_existing_preprocessed_file)\<close>. \<open>data\<close> is a path, or
  a Data object: the dictionary of its recordings by step key, and the two paths the
  function reads. The state holds the directories that exist and logs the calls that
  load saved data and the calls to \<open>save_all_preprocessed_data\<close>, which writes the
  preprocessed data. The result is the recording: one loaded from a path, or the one of
  the last step, which \<open>get_dict_value_from_step_num(data, "last")\<close> resolves and may
  raise on.
\<close>

record data_object =
  recordings :: "(string \<times> string) list"
  preprocessed_binary_data_path :: path
  preprocessed_output_path :: path

datatype data_arg = Path_arg path | Data_arg data_object

datatype recording_source = Loaded_from path | Last_step string

record preprocessing_state =
  existing_dirs :: "path set"
  loaded :: "path list"
  saved_all_preprocessed_data :: "path list"

definition get_data_and_recording ::
  "data_arg \<Rightarrow> bool \<Rightarrow> preprocessing_state
     \<Rightarrow> (py_error + recording_source) \<times> preprocessing_state" where
  "get_data_and_recording data use_existing_preprocessed_file st =
     (case data of
        Path_arg p \<Rightarrow> (Inr (Loaded_from p), st\<lparr>loaded := loaded st @ [p]\<rparr>)
      | Data_arg d \<Rightarrow>
          (if use_existing_preprocessed_file \<and> preprocessed_binary_data_path d \<in> existing_dirs st
           then (Inr (Loaded_from (preprocessed_output_path d)),
                 st\<lparr>loaded := loaded st @ [preprocessed_output_path d]\<rparr>)
           else
             let st1 = st\<lparr>saved_all_preprocessed_data :=
                            saved_all_preprocessed_data st @ [preprocessed_output_path d]\<rparr>
             in case get_dict_value_from_step_num_swc_ephys (recordings d) ''last'' of
                  Inl e \<Rightarrow> (Inl e, st1)
                | Inr (recording, pp_key) \<Rightarrow> (Inr (Last_step recording), st1)))"


section \<open>The existing-output policy of the specification\<close>

text \<open>
  The specification's \<open>decide(path_exists, mode)\<close>, written from its truth table, to
  be compared with what an iteration of the sorting loop does.
\<close>

datatype mode = FailIfExists | Overwrite | LoadIfExists | SkipIfExists

datatype action = ProceedFresh | LoadExisting | Skip | Fail

fun decide :: "bool \<Rightarrow> mode \<Rightarrow> action" where
  "decide False m = ProceedFresh"
| "decide True FailIfExists = Fail"
| "decide True Overwrite = ProceedFresh"
| "decide True LoadIfExists = LoadExisting"
| "decide True SkipIfExists = Skip"

text \<open>The string by which the code names a mode.\<close>

fun mode_name :: "mode \<Rightarrow> string" where
  "mode_name FailIfExists = ''fail_if_exists''"
| "mode_name Overwrite = ''overwrite''"
| "mode_name LoadIfExists = ''load_if_exists''"
| "mode_name SkipIfExists = ''skip_if_exists''"

text \<open>
  The action an iteration took: it raised before the sorter was called, it went on to
  the next run leaving the existing output in place, or it called the sorter (which
  completed, or raised).
\<close>

fun action_of :: "iteration \<Rightarrow> action" where
  "action_of (Raise e) = (if e = SpikeSortingError then ProceedFresh else Fail)"
| "action_of Continue = LoadExisting"
| "action_of Sorted = ProceedFresh"

section \<open>Concrete data\<close>

text \<open>
  A subject with two runs, on which the theorems below are instantiated: the sorter
  output of \<open>run1\<close> exists, that of \<open>run2\<close> does not.
\<close>

fun example_sorting_path :: "string option \<Rightarrow> path" where
  "example_sorting_path None = ''/data/derivatives/sub-1/concat/kilosort2_5''"
| "example_sorting_path (Some run_name) =
     ''/data/derivatives/sub-1/'' @ run_name @ ''/kilosort2_5''"

definition example_sorting_data :: sorting_data where
  "example_sorting_data =
     \<lparr>sorter = ''kilosort2_5'', base_path = ''/data'',
      sorting_run_names = [Some ''run1'', Some ''run2''],
      get_sorting_path = example_sorting_path\<rparr>"

definition example_world :: world where
  "example_world =
     \<lparr>dirs = {''/data'', ''/data/derivatives/sub-1/run1/kilosort2_5''},
      removed_dirs = [], sorter_calls = [], saved_sorting_info = [],
      cwd = ''/home/user'', slurm_submissions = []\<rparr>"

text \<open>The same subject when only the sorter output of \<open>run2\<close> exists.\<close>

definition example_world_run2 :: world where
  "example_world_run2 =
     \<lparr>dirs = {''/data'', ''/data/derivatives/sub-1/run2/kilosort2_5''},
      removed_dirs = [], sorter_calls = [], saved_sorting_info = [],
      cwd = ''/home/user'', slurm_submissions = []\<rparr>"

fun always_completes :: "path \<Rightarrow> sorter_result" where
  "always_completes p = Completed"

fun always_crashes :: "path \<Rightarrow> sorter_result" where
  "always_crashes p = Crashed True"


definition example_data_object :: data_object where
  "example_data_object =
     \<lparr>recordings = [(''0-raw'', ''raw''), (''1-raw-phase_shift'', ''phase_shift'')],
      preprocessed_binary_data_path = ''/data/derivatives/sub-1/run1/preprocessed/si_recording'',
      preprocessed_output_path = ''/data/derivatives/sub-1/run1/preprocessed''\<rparr>"

definition example_preprocessing_state :: preprocessing_state where
  "example_preprocessing_state =
     \<lparr>existing_dirs = {''/data/derivatives/sub-1/run1/preprocessed'',
                       ''/data/derivatives/sub-1/run1/preprocessed/si_recording''},
      loaded = [], saved_all_preprocessed_data = []\<rparr>"

text \<open>
  A store with the caller's \<open>sorter_options\<close> at address 0, holding under
  \<open>"kilosort2_5"\<close> the dictionary at address 1.
\<close>

definition example_heap :: heap where
  "example_heap =
     [[''kilosort2_5'' \<mapsto> Ref 1],
      [''car'' \<mapsto> Scalar (SBool False)]]"

definition example_default_slurm_options :: "string \<rightharpoonup> scalar" where
  "example_default_slurm_options =
     [''wait'' \<mapsto> SBool False, ''env_name'' \<mapsto> SStr ''spikewrap'',
      ''mem_gb'' \<mapsto> SInt 40]"

definition example_slurm_state :: slurm_state where
  "example_slurm_state =
     \<lparr>log_folders = [], executors = [], jobs = [], waited_on = [], start_messages = []\<rparr>"

text \<open>
  Two run folders: \<open>/raw/run1\<close> was created first and modified last.
\<close>

definition example_file_system :: file_system where
  "example_file_system =
     [''/raw/run1'' \<mapsto> \<lparr>ctime = 100, mtime = 400\<rparr>,
      ''/raw/run2'' \<mapsto> \<lparr>ctime = 200, mtime = 300\<rparr>]"

text \<open>The keys of eleven preprocessing steps, numbered 0 to 10.\<close>

definition example_steps :: "(string \<times> nat) list" where
  "example_steps =
     [(''0-raw'', 0), (''1-raw-a'', 1), (''2-raw-a-b'', 2), (''3-raw-a-b-c'', 3),
      (''4-raw-a-b-c-d'', 4), (''5-raw-a-b-c-d-e'', 5), (''6-raw-a-b-c-d-e-f'', 6),
      (''7-raw-a-b-c-d-e-f-g'', 7), (''8-raw-a-b-c-d-e-f-g-h'', 8),
      (''9-raw-a-b-c-d-e-f-g-h-i'', 9), (''10-raw-a-b-c-d-e-f-g-h-i-j'', 10)]"

section \<open>Properties of the sorting loop\<close>

lemma action_of_sort_and_save:
  "action_of (fst (sort_and_save ext r p w)) = ProceedFresh"
  by (simp add: sort_and_save_def run_sorter_def Let_def split: sorter_result.splits)

lemma sort_and_save_calls:
  "sorter_calls (snd (sort_and_save ext r p w)) = sorter_calls w @ [p]"
  by (simp add: sort_and_save_def run_sorter_def remove_existing_folder_def Let_def
      split: sorter_result.splits)

lemma sort_and_save_removed:
  "removed_dirs (snd (sort_and_save ext r p w)) =
     (if p \<in> dirs w then removed_dirs w @ [p] else removed_dirs w)"
  by (simp add: sort_and_save_def run_sorter_def remove_existing_folder_def Let_def
      split: sorter_result.splits)

lemma sort_and_save_dirs_fresh:
  "p \<notin> dirs w \<Longrightarrow> dirs w \<subseteq> dirs (snd (sort_and_save ext r p w))"
  by (auto simp add: sort_and_save_def run_sorter_def remove_existing_folder_def Let_def
      split: sorter_result.splits)

lemma sort_and_save_Sorted_dirs:
  "sort_and_save ext r p w = (Sorted, w') \<Longrightarrow> dirs w' = insert p (dirs w)"
  by (auto simp add: sort_and_save_def run_sorter_def remove_existing_folder_def Let_def
      split: sorter_result.splits if_splits)

lemma sort_and_save_not_Continue:
  "sort_and_save ext r p w \<noteq> (Continue, w')"
  by (auto simp add: sort_and_save_def run_sorter_def Let_def split: sorter_result.splits)

lemma sort_and_save_saved:
  "saved_sorting_info (snd (sort_and_save ext r p w)) =
     (if ext p = Completed then saved_sorting_info w @ [r] else saved_sorting_info w)"
  by (simp add: sort_and_save_def run_sorter_def remove_existing_folder_def Let_def
      split: sorter_result.splits)

lemma sort_and_save_fst:
  "fst (sort_and_save ext r p w) =
     (if ext p = Completed then Sorted else Raise SpikeSortingError)"
  by (simp add: sort_and_save_def run_sorter_def Let_def split: sorter_result.splits)

lemma fail_step_exists:
  "get_sorting_path sd r \<in> dirs w \<Longrightarrow>
   sort_one_run ext sd ''fail_if_exists'' r w = (Raise RuntimeError, w)"
  by (simp add: sort_one_run_def)

lemma fail_step_fresh:
  "get_sorting_path sd r \<notin> dirs w \<Longrightarrow>
   sort_one_run ext sd ''fail_if_exists'' r w = sort_and_save ext r (get_sorting_path sd r) w"
  by (simp add: sort_one_run_def)

text \<open>
  In the mode \<open>fail_if_exists\<close> an iteration keeps every existing directory, deletes
  nothing, and calls the sorter on no folder that exists.
\<close>

lemma fail_step_inv:
  assumes "p \<in> dirs w"
  shows "p \<in> dirs (snd (sort_one_run ext sd ''fail_if_exists'' r w))
       \<and> removed_dirs (snd (sort_one_run ext sd ''fail_if_exists'' r w)) = removed_dirs w
       \<and> filter (\<lambda>q. q = p) (sorter_calls (snd (sort_one_run ext sd ''fail_if_exists'' r w)))
           = filter (\<lambda>q. q = p) (sorter_calls w)"
proof (cases "get_sorting_path sd r \<in> dirs w")
  case True
  then show ?thesis using assms by (simp add: fail_step_exists)
next
  case False
  then have ne: "get_sorting_path sd r \<noteq> p" using assms by auto
  from False show ?thesis
    using assms ne sort_and_save_dirs_fresh [OF False, of ext r]
    by (auto simp add: fail_step_fresh sort_and_save_calls sort_and_save_removed)
qed

lemma fail_runs_inv:
  assumes "p \<in> dirs w"
  shows "p \<in> dirs (snd (sort_runs ext sd ''fail_if_exists'' runs w))
       \<and> removed_dirs (snd (sort_runs ext sd ''fail_if_exists'' runs w)) = removed_dirs w
       \<and> filter (\<lambda>q. q = p) (sorter_calls (snd (sort_runs ext sd ''fail_if_exists'' runs w)))
           = filter (\<lambda>q. q = p) (sorter_calls w)"
  using assms
proof (induction runs arbitrary: w)
  case Nil
  then show ?case by simp
next
  case (Cons r runs)
  obtain it w' where st: "sort_one_run ext sd ''fail_if_exists'' r w = (it, w')"
    by (cases "sort_one_run ext sd ''fail_if_exists'' r w")
  from fail_step_inv [OF Cons.prems, of ext sd r] st
  have inv: "p \<in> dirs w'" "removed_dirs w' = removed_dirs w"
    "filter (\<lambda>q. q = p) (sorter_calls w') = filter (\<lambda>q. q = p) (sorter_calls w)"
    by simp_all
  show ?case
  proof (cases it)
    case (Raise e)
    with st inv show ?thesis by simp
  next
    case Continue
    with st inv Cons.IH [OF inv(1)] show ?thesis by simp
  next
    case Sorted
    with st inv Cons.IH [OF inv(1)] show ?thesis by simp
  qed
qed

lemma fail_runs_raises:
  assumes "r \<in> set runs" "get_sorting_path sd r \<in> dirs w"
  shows "\<exists>e. fst (sort_runs ext sd ''fail_if_exists'' runs w) = Raised e"
  using assms
proof (induction runs arbitrary: w)
  case Nil
  then show ?case by simp
next
  case (Cons a runs)
  obtain it w' where st: "sort_one_run ext sd ''fail_if_exists'' a w = (it, w')"
    by (cases "sort_one_run ext sd ''fail_if_exists'' a w")
  show ?case
  proof (cases it)
    case (Raise e)
    with st show ?thesis by simp
  next
    case Continue
    with st have False
      by (auto simp add: sort_one_run_def Let_def sort_and_save_not_Continue split: if_splits)
    then show ?thesis ..
  next
    case Sorted
    with st have nex: "get_sorting_path sd a \<notin> dirs w"
      by (auto simp add: sort_one_run_def Let_def split: if_splits)
    then have "a \<noteq> r" using Cons.prems by auto
    then have rin: "r \<in> set runs" using Cons.prems by simp
    have "get_sorting_path sd r \<in> dirs w'"
      using fail_step_inv [OF Cons.prems(2), of ext sd a] st by simp
    from Cons.IH [OF rin this] st Sorted show ?thesis by simp
  qed
qed

text \<open>
  C1, as amended. The specification's table gives the action of an iteration of the
  sorting loop for every pair of path existence and mode but one: an existing path
  with \<open>skip_if_exists\<close>, a mode the loop does not know. On \<open>Fail\<close> the iteration raises
  RuntimeError and on \<open>LoadExisting\<close> it goes on to the next run, both with the state
  untouched; on \<open>ProceedFresh\<close> the sorter is called once on the output folder, and an
  existing folder is deleted first.
\<close>

theorem existing_output_decision:
  assumes "m \<noteq> SkipIfExists \<or> get_sorting_path sd r \<notin> dirs w"
  shows "action_of (fst (sort_one_run ext sd (mode_name m) r w))
           = decide (get_sorting_path sd r \<in> dirs w) m
       \<and> (decide (get_sorting_path sd r \<in> dirs w) m = Fail \<longrightarrow>
            sort_one_run ext sd (mode_name m) r w = (Raise RuntimeError, w))
       \<and> (decide (get_sorting_path sd r \<in> dirs w) m = LoadExisting \<longrightarrow>
            sort_one_run ext sd (mode_name m) r w = (Continue, w))
       \<and> (decide (get_sorting_path sd r \<in> dirs w) m = ProceedFresh \<longrightarrow>
            sorter_calls (snd (sort_one_run ext sd (mode_name m) r w))
              = sorter_calls w @ [get_sorting_path sd r]
          \<and> removed_dirs (snd (sort_one_run ext sd (mode_name m) r w))
              = (if get_sorting_path sd r \<in> dirs w
                 then removed_dirs w @ [get_sorting_path sd r] else removed_dirs w))"
  using assms
  by (cases m)
     (simp_all add: sort_one_run_def Let_def quick_safety_check_def action_of_sort_and_save
        sort_and_save_calls sort_and_save_removed)

theorem existing_output_decision_witness:
  "get_sorting_path example_sorting_data (Some ''run1'') \<in> dirs example_world
   \<and> action_of (fst (sort_one_run always_completes example_sorting_data
         (mode_name Overwrite) (Some ''run1'') example_world)) = ProceedFresh
   \<and> removed_dirs (snd (sort_one_run always_completes example_sorting_data
         (mode_name Overwrite) (Some ''run1'') example_world))
       = [''/data/derivatives/sub-1/run1/kilosort2_5'']"
  using existing_output_decision
    [of Overwrite example_sorting_data "Some ''run1''" example_world always_completes]
  by (simp add: example_sorting_data_def example_world_def)

text \<open>
  C1 as stated fails: with the output of \<open>run1\<close> in place and the mode
  \<open>skip_if_exists\<close>, the iteration does not skip; it calls the sorter and deletes the
  existing output folder.
\<close>

theorem skip_if_exists_counterexample:
  "action_of (fst (sort_one_run always_completes example_sorting_data
       (mode_name SkipIfExists) (Some ''run1'') example_world))
     \<noteq> decide (get_sorting_path example_sorting_data (Some ''run1'') \<in> dirs example_world)
          SkipIfExists
   \<and> sorter_calls (snd (sort_one_run always_completes example_sorting_data
       (mode_name SkipIfExists) (Some ''run1'') example_world))
     = [''/data/derivatives/sub-1/run1/kilosort2_5'']
   \<and> removed_dirs (snd (sort_one_run always_completes example_sorting_data
       (mode_name SkipIfExists) (Some ''run1'') example_world))
     = [''/data/derivatives/sub-1/run1/kilosort2_5'']"
  by (simp add: example_sorting_data_def example_world_def sort_one_run_def
      quick_safety_check_def Let_def action_of_sort_and_save sort_and_save_calls
      sort_and_save_removed)


lemma sort_runs_append:
  "sort_runs ext sd m (xs @ ys) w =
     (case sort_runs ext sd m xs w of
        (Raised e, w') \<Rightarrow> (Raised e, w')
      | (Returned, w') \<Rightarrow> sort_runs ext sd m ys w')"
proof (induction xs arbitrary: w)
  case Nil
  then show ?case by simp
next
  case (Cons a xs)
  obtain it w1 where st: "sort_one_run ext sd m a w = (it, w1)"
    by (cases "sort_one_run ext sd m a w")
  show ?case using st Cons.IH [of w1] by (cases it) simp_all
qed

lemma fail_step_error_kind:
  "fst (sort_one_run ext sd ''fail_if_exists'' r w) = Raise e \<Longrightarrow>
   e = RuntimeError \<or> e = SpikeSortingError"
  by (cases "get_sorting_path sd r \<in> dirs w")
     (auto simp add: fail_step_exists fail_step_fresh sort_and_save_fst split: if_splits)

lemma fail_runs_error_kind:
  "fst (sort_runs ext sd ''fail_if_exists'' runs w) = Raised e \<Longrightarrow>
   e = RuntimeError \<or> e = SpikeSortingError"
proof (induction runs arbitrary: w)
  case Nil
  then show ?case by simp
next
  case (Cons a runs)
  obtain it w1 where st: "sort_one_run ext sd ''fail_if_exists'' a w = (it, w1)"
    by (cases "sort_one_run ext sd ''fail_if_exists'' a w")
  show ?case
  proof (cases it)
    case (Raise e')
    with st Cons.prems have "e' = e" by simp
    with st Raise fail_step_error_kind [of ext sd a w e] show ?thesis by simp
  next
    case Continue
    with st Cons.prems Cons.IH [of w1] show ?thesis by simp
  next
    case Sorted
    with st Cons.prems Cons.IH [of w1] show ?thesis by simp
  qed
qed

text \<open>
  C2, as amended. When the output path of a run exists and the mode is
  \<open>fail_if_exists\<close>, the iteration for that run raises RuntimeError before the sorter
  is called and leaves the state as it found it. A loop that starts at that run ends
  there with the state untouched, and a loop that reaches it after other runs ends
  there with the state those runs left. For any list of runs holding that run, the
  whole loop raises RuntimeError or the error of a sorter call on an earlier run, makes
  no sorter call on that run's output folder, deletes no directory, and the folder is
  still in place afterwards.
\<close>

theorem fail_if_exists_raises_first:
  assumes "r \<in> set runs" and "get_sorting_path sd r \<in> dirs w"
  shows "sort_one_run ext sd ''fail_if_exists'' r w = (Raise RuntimeError, w)
       \<and> sort_runs ext sd ''fail_if_exists'' (r # rest) w = (Raised RuntimeError, w)
       \<and> (sort_runs ext sd ''fail_if_exists'' before w = (Returned, w1) \<longrightarrow>
            sort_runs ext sd ''fail_if_exists'' (before @ r # rest) w = (Raised RuntimeError, w1))
       \<and> (fst (sort_runs ext sd ''fail_if_exists'' runs w) = Raised RuntimeError
          \<or> fst (sort_runs ext sd ''fail_if_exists'' runs w) = Raised SpikeSortingError)
       \<and> filter (\<lambda>q. q = get_sorting_path sd r)
            (sorter_calls (snd (sort_runs ext sd ''fail_if_exists'' runs w)))
          = filter (\<lambda>q. q = get_sorting_path sd r) (sorter_calls w)
       \<and> removed_dirs (snd (sort_runs ext sd ''fail_if_exists'' runs w)) = removed_dirs w
       \<and> get_sorting_path sd r \<in> dirs (snd (sort_runs ext sd ''fail_if_exists'' runs w))"
proof -
  have pre: "sort_runs ext sd ''fail_if_exists'' before w = (Returned, w1) \<longrightarrow>
            sort_runs ext sd ''fail_if_exists'' (before @ r # rest) w = (Raised RuntimeError, w1)"
  proof
    assume b: "sort_runs ext sd ''fail_if_exists'' before w = (Returned, w1)"
    then have "get_sorting_path sd r \<in> dirs w1"
      using fail_runs_inv [OF assms(2), of ext sd before] by simp
    then show "sort_runs ext sd ''fail_if_exists'' (before @ r # rest) w
                 = (Raised RuntimeError, w1)"
      using b by (simp add: sort_runs_append fail_step_exists)
  qed
  obtain e where e: "fst (sort_runs ext sd ''fail_if_exists'' runs w) = Raised e"
    using fail_runs_raises [OF assms, of ext] by blast
  then have kind: "fst (sort_runs ext sd ''fail_if_exists'' runs w) = Raised RuntimeError
          \<or> fst (sort_runs ext sd ''fail_if_exists'' runs w) = Raised SpikeSortingError"
    using fail_runs_error_kind [OF e] by auto
  show ?thesis
    using assms(2) pre kind fail_runs_inv [OF assms(2), of ext sd runs]
    by (simp add: fail_step_exists)
qed

theorem fail_if_exists_raises_first_witness:
  "Some ''run1'' \<in> set (sorting_run_names example_sorting_data)
   \<and> get_sorting_path example_sorting_data (Some ''run1'') \<in> dirs example_world
   \<and> run_sorting_on_all_runs always_completes example_sorting_data ''fail_if_exists''
         example_world
       = (Raised RuntimeError, example_world)"
  using fail_if_exists_raises_first
    [of "Some ''run1''" "sorting_run_names example_sorting_data" example_sorting_data
        example_world always_completes "[Some ''run2'']"]
  by (simp add: example_sorting_data_def example_world_def run_sorting_on_all_runs_def)

text \<open>
  C2 as stated fails for a run that is not the first: with the output of \<open>run2\<close> in
  place and none for \<open>run1\<close>, the loop sorts \<open>run1\<close> before it raises at \<open>run2\<close>, so
  the output folder and the sorting info of \<open>run1\<close> are new; and when the sorter
  crashes on \<open>run1\<close> the loop ends in the sorter's error.
\<close>

theorem fail_if_exists_later_run_counterexample:
  "get_sorting_path example_sorting_data (Some ''run2'') \<in> dirs example_world_run2
   \<and> fst (run_sorting_on_all_runs always_completes example_sorting_data ''fail_if_exists''
          example_world_run2) = Raised RuntimeError
   \<and> snd (run_sorting_on_all_runs always_completes example_sorting_data ''fail_if_exists''
          example_world_run2) \<noteq> example_world_run2
   \<and> ''/data/derivatives/sub-1/run1/kilosort2_5''
       \<in> dirs (snd (run_sorting_on_all_runs always_completes example_sorting_data
                   ''fail_if_exists'' example_world_run2))
   \<and> ''/data/derivatives/sub-1/run1/kilosort2_5'' \<notin> dirs example_world_run2
   \<and> saved_sorting_info (snd (run_sorting_on_all_runs always_completes example_sorting_data
          ''fail_if_exists'' example_world_run2)) = [Some ''run1'']
   \<and> fst (run_sorting_on_all_runs always_crashes example_sorting_data ''fail_if_exists''
          example_world_run2) = Raised SpikeSortingError"
  by (simp add: run_sorting_on_all_runs_def example_sorting_data_def example_world_run2_def
      sort_one_run_def quick_safety_check_def sort_and_save_def run_sorter_def
      remove_existing_folder_def Let_def)

lemma load_step_exists:
  "get_sorting_path sd r \<in> dirs w \<Longrightarrow>
   sort_one_run ext sd ''load_if_exists'' r w = (Continue, w)"
  by (simp add: sort_one_run_def)

lemma load_runs_all_exist:
  "\<forall>r\<in>set runs. get_sorting_path sd r \<in> dirs w \<Longrightarrow>
   sort_runs ext sd ''load_if_exists'' runs w = (Returned, w)"
  by (induction runs) (simp_all add: load_step_exists)

text \<open>An iteration that does not raise leaves the run's output folder in place.\<close>

lemma step_no_raise_dirs:
  assumes "sort_one_run ext sd m r w = (it, w')" "\<forall>e. it \<noteq> Raise e"
  shows "dirs w' = insert (get_sorting_path sd r) (dirs w)"
  using assms
  by (cases it)
     (auto simp add: sort_one_run_def Let_def sort_and_save_not_Continue
        split: if_splits option.splits dest: sort_and_save_Sorted_dirs)

lemma returned_runs_dirs:
  "sort_runs ext sd m runs w = (Returned, w') \<Longrightarrow>
   dirs w \<subseteq> dirs w' \<and> (\<forall>r\<in>set runs. get_sorting_path sd r \<in> dirs w')"
proof (induction runs arbitrary: w)
  case Nil
  then show ?case by simp
next
  case (Cons a runs)
  obtain it w1 where st: "sort_one_run ext sd m a w = (it, w1)"
    by (cases "sort_one_run ext sd m a w")
  with Cons.prems have nr: "\<forall>e. it \<noteq> Raise e"
    and rest: "sort_runs ext sd m runs w1 = (Returned, w')"
    by (cases it; simp)+
  from step_no_raise_dirs [OF st nr]
  have d1: "dirs w1 = insert (get_sorting_path sd a) (dirs w)" .
  from Cons.IH [OF rest] d1 show ?case by auto
qed

text \<open>
  C3. After a run of the sorting loop that returned (in any mode, with any sorter), a
  second run over the same data in the mode \<open>load_if_exists\<close> returns with the state
  it started from: no sorter call, nothing saved, nothing deleted. An iteration in that
  mode on a run whose output exists goes on to the next run with the state untouched.
  For preprocessing, \<open>get_data_and_recording\<close> with \<open>use_existing_preprocessed_file\<close>
  set and the preprocessed data in place loads it and does not call
  \<open>save_all_preprocessed_data\<close>.
\<close>

theorem load_if_exists_second_run:
  assumes "run_sorting_on_all_runs ext sd m w = (Returned, w1)"
  shows "run_sorting_on_all_runs ext2 sd ''load_if_exists'' w1 = (Returned, w1)
       \<and> (\<forall>r\<in>set (sorting_run_names sd).
             sort_one_run ext2 sd ''load_if_exists'' r w1 = (Continue, w1))
       \<and> (preprocessed_binary_data_path d \<in> existing_dirs st \<longrightarrow>
             saved_all_preprocessed_data (snd (get_data_and_recording (Data_arg d) True st))
               = saved_all_preprocessed_data st
           \<and> existing_dirs (snd (get_data_and_recording (Data_arg d) True st))
               = existing_dirs st
           \<and> fst (get_data_and_recording (Data_arg d) True st)
               = Inr (Loaded_from (preprocessed_output_path d)))"
proof -
  from assms have ex: "\<forall>r\<in>set (sorting_run_names sd). get_sorting_path sd r \<in> dirs w1"
    using returned_runs_dirs [of ext sd m "sorting_run_names sd" w w1]
    by (simp add: run_sorting_on_all_runs_def)
  then show ?thesis
    by (simp add: run_sorting_on_all_runs_def load_runs_all_exist load_step_exists
        get_data_and_recording_def)
qed


theorem load_if_exists_second_run_witness:
  "fst (run_sorting_on_all_runs always_completes example_sorting_data ''overwrite''
          example_world) = Returned
   \<and> run_sorting_on_all_runs always_crashes example_sorting_data ''load_if_exists''
         (snd (run_sorting_on_all_runs always_completes example_sorting_data ''overwrite''
                 example_world))
       = (Returned,
          snd (run_sorting_on_all_runs always_completes example_sorting_data ''overwrite''
                 example_world))
   \<and> saved_all_preprocessed_data
         (snd (get_data_and_recording (Data_arg example_data_object) True
                 example_preprocessing_state)) = []"
proof -
  have ret: "fst (run_sorting_on_all_runs always_completes example_sorting_data ''overwrite''
          example_world) = Returned"
    by (simp add: run_sorting_on_all_runs_def example_sorting_data_def example_world_def
        sort_one_run_def quick_safety_check_def sort_and_save_def run_sorter_def
        remove_existing_folder_def Let_def)
  then have first:
    "run_sorting_on_all_runs always_completes example_sorting_data ''overwrite'' example_world
       = (Returned,
          snd (run_sorting_on_all_runs always_completes example_sorting_data ''overwrite''
                 example_world))"
    by (metis prod.collapse)
  have pre: "preprocessed_binary_data_path example_data_object
               \<in> existing_dirs example_preprocessing_state"
    by (simp add: example_data_object_def example_preprocessing_state_def)
  have none: "saved_all_preprocessed_data example_preprocessing_state = []"
    by (simp add: example_preprocessing_state_def)
  from load_if_exists_second_run
         [OF first, of always_crashes example_data_object example_preprocessing_state]
       pre none ret
  show ?thesis by simp
qed

text \<open>
  C9. An iteration that proceeds fresh (the output path does not exist, or the mode
  is neither \<open>fail_if_exists\<close> nor \<open>load_if_exists\<close>) calls the sorter once, on the
  run's output folder. When the sorter completes, the sorting info of the run is saved
  once; when it does not, the iteration raises and no sorting info is saved.
\<close>

theorem sorting_info_saved_iff_sorter_completed:
  assumes "get_sorting_path sd r \<notin> dirs w
           \<or> (m \<noteq> ''fail_if_exists'' \<and> m \<noteq> ''load_if_exists'')"
  shows "sorter_calls (snd (sort_one_run ext sd m r w))
           = sorter_calls w @ [get_sorting_path sd r]
       \<and> (ext (get_sorting_path sd r) = Completed \<longrightarrow>
            fst (sort_one_run ext sd m r w) = Sorted
          \<and> saved_sorting_info (snd (sort_one_run ext sd m r w))
              = saved_sorting_info w @ [r])
       \<and> (ext (get_sorting_path sd r) \<noteq> Completed \<longrightarrow>
            fst (sort_one_run ext sd m r w) = Raise SpikeSortingError
          \<and> saved_sorting_info (snd (sort_one_run ext sd m r w)) = saved_sorting_info w)"
  using assms
  by (auto simp add: sort_one_run_def Let_def quick_safety_check_def sort_and_save_calls
      sort_and_save_saved sort_and_save_fst)

theorem sorting_info_saved_iff_sorter_completed_witness:
  "get_sorting_path example_sorting_data (Some ''run2'') \<notin> dirs example_world
   \<and> saved_sorting_info (snd (sort_one_run always_completes example_sorting_data
         ''fail_if_exists'' (Some ''run2'') example_world)) = [Some ''run2'']
   \<and> saved_sorting_info (snd (sort_one_run always_crashes example_sorting_data
         ''fail_if_exists'' (Some ''run2'') example_world)) = []
   \<and> sorter_calls (snd (sort_one_run always_crashes example_sorting_data
         ''fail_if_exists'' (Some ''run2'') example_world))
       = [''/data/derivatives/sub-1/run2/kilosort2_5'']"
  using sorting_info_saved_iff_sorter_completed
          [of example_sorting_data "Some ''run2''" example_world "''fail_if_exists''"
              always_completes]
        sorting_info_saved_iff_sorter_completed
          [of example_sorting_data "Some ''run2''" example_world "''fail_if_exists''"
              always_crashes]
  by (simp add: example_sorting_data_def example_world_def)


section \<open>Properties of \<open>run_sorting\<close> and \<open>validate_inputs\<close>\<close>

lemma sort_one_run_cwd: "cwd (snd (sort_one_run ext sd m r w)) = cwd w"
  by (simp add: sort_one_run_def Let_def sort_and_save_def run_sorter_def
      remove_existing_folder_def split: option.splits sorter_result.splits)

lemma sort_runs_cwd: "cwd (snd (sort_runs ext sd m runs w)) = cwd w"
proof (induction runs arbitrary: w)
  case Nil
  then show ?case by simp
next
  case (Cons a runs)
  obtain it w1 where st: "sort_one_run ext sd m a w = (it, w1)"
    by (cases "sort_one_run ext sd m a w")
  then have c: "cwd w1 = cwd w" using sort_one_run_cwd [of ext sd m a w] by simp
  show ?case using st c Cons.IH [of w1] by (cases it) simp_all
qed

text \<open>
  C5, as amended. Once \<open>run_sorting\<close> has validated its inputs and changed the working
  directory to \<open>base_path\<close>, the working directory is \<open>base_path\<close> when the function
  ends, whether the sorting returned or raised: the directory is set and never set
  back.
\<close>

theorem working_directory_stays_at_base_path:
  assumes "validate_inputs False sorter_name sorter_options verbose h = Inr (d, h1)"
    and "base_path sd \<in> dirs w"
  shows "cwd (snd (snd (run_sorting ext sd sorter_name sorter_options m verbose False (h, w))))
           = base_path sd"
  using assms
  by (simp add: run_sorting_def Let_def run_sorting_on_all_runs_def sort_runs_cwd)

theorem working_directory_stays_at_base_path_witness:
  "validate_inputs False ''kilosort2_5'' None True []
     = Inr (0, [[''verbose'' \<mapsto> Scalar (SBool True)]])
   \<and> base_path example_sorting_data \<in> dirs example_world
   \<and> cwd (snd (snd (run_sorting always_crashes example_sorting_data ''kilosort2_5'' None
          ''overwrite'' True False ([], example_world)))) = ''/data''"
proof -
  have v: "validate_inputs False ''kilosort2_5'' None True []
             = Inr (0, [[''verbose'' \<mapsto> Scalar (SBool True)]])"
    by (simp add: validate_inputs_def supported_sorters_def Let_def dict_update_def)
  have b: "base_path example_sorting_data \<in> dirs example_world"
    by (simp add: example_sorting_data_def example_world_def)
  from working_directory_stays_at_base_path [OF v b, of always_crashes "''overwrite''"] v b
  show ?thesis by (simp add: example_sorting_data_def)
qed

text \<open>
  C5 as stated fails: started in \<open>/home/user\<close>, \<open>run_sorting\<close> ends in \<open>/data\<close>, both
  when the sorter completes and when it crashes.
\<close>

theorem working_directory_counterexample:
  "cwd example_world = ''/home/user''
   \<and> fst (run_sorting always_completes example_sorting_data ''kilosort2_5'' None
          ''overwrite'' True False ([], example_world)) = Returned
   \<and> cwd (snd (snd (run_sorting always_completes example_sorting_data ''kilosort2_5'' None
          ''overwrite'' True False ([], example_world)))) = ''/data''
   \<and> fst (run_sorting always_crashes example_sorting_data ''kilosort2_5'' None
          ''overwrite'' True False ([], example_world)) = Raised SpikeSortingError
   \<and> cwd (snd (snd (run_sorting always_crashes example_sorting_data ''kilosort2_5'' None
          ''overwrite'' True False ([], example_world)))) = ''/data''"
  by (simp add: run_sorting_def validate_inputs_def supported_sorters_def Let_def
      dict_update_def example_sorting_data_def example_world_def run_sorting_on_all_runs_def
      sort_one_run_def quick_safety_check_def sort_and_save_def run_sorter_def
      remove_existing_folder_def)


lemma verbose_not_supported:
  "sorter_name \<in> set supported_sorters \<Longrightarrow> sorter_name \<noteq> ''verbose''"
  by (auto simp add: supported_sorters_def)

text \<open>
  C10. Whenever \<open>validate_inputs\<close> returns, the returned dictionary maps \<open>"verbose"\<close>
  to the \<open>verbose\<close> argument. When \<open>sorter_options\<close> holds a dictionary under the
  sorter's name, the returned address is the address of that dictionary, and the update
  is made there: the caller's \<open>sorter_options[sorter]\<close> is the same object and now has
  the key \<open>"verbose"\<close>. With \<open>sorter_options = None\<close> a new dictionary is returned.
\<close>

theorem validate_inputs_verbose_in_place:
  assumes "sorter_name \<in> set supported_sorters"
  shows "(validate_inputs slurm_batch sorter_name sorter_options verbose h = Inr (a, h') \<longrightarrow>
            a < length h' \<and> (h' ! a) ''verbose'' = Some (Scalar (SBool verbose)))
       \<and> (so < length h \<and> (h ! so) sorter_name = Some (Ref a0) \<and> a0 < length h \<longrightarrow>
            validate_inputs False sorter_name (Some so) verbose h
              = Inr (a0, dict_update a0 ''verbose'' (Scalar (SBool verbose)) (h @ [Map.empty]))
          \<and> (dict_update a0 ''verbose'' (Scalar (SBool verbose)) (h @ [Map.empty]) ! so)
               sorter_name = Some (Ref a0)
          \<and> (dict_update a0 ''verbose'' (Scalar (SBool verbose)) (h @ [Map.empty]) ! a0)
              = (h ! a0)(''verbose'' \<mapsto> Scalar (SBool verbose)))
       \<and> validate_inputs False sorter_name None verbose h
           = Inr (length h, h @ [[''verbose'' \<mapsto> Scalar (SBool verbose)]])"
proof -
  have nv: "sorter_name \<noteq> ''verbose''" using assms by (rule verbose_not_supported)
  have p1: "validate_inputs slurm_batch sorter_name sorter_options verbose h = Inr (a, h') \<longrightarrow>
            a < length h' \<and> (h' ! a) ''verbose'' = Some (Scalar (SBool verbose))"
    by (auto simp add: validate_inputs_def Let_def dict_update_def
        split: if_splits option.splits pyval.splits)
  have p2: "so < length h \<and> (h ! so) sorter_name = Some (Ref a0) \<and> a0 < length h \<longrightarrow>
            validate_inputs False sorter_name (Some so) verbose h
              = Inr (a0, dict_update a0 ''verbose'' (Scalar (SBool verbose)) (h @ [Map.empty]))
          \<and> (dict_update a0 ''verbose'' (Scalar (SBool verbose)) (h @ [Map.empty]) ! so)
               sorter_name = Some (Ref a0)
          \<and> (dict_update a0 ''verbose'' (Scalar (SBool verbose)) (h @ [Map.empty]) ! a0)
              = (h ! a0)(''verbose'' \<mapsto> Scalar (SBool verbose))"
    using assms nv
    by (auto simp add: validate_inputs_def Let_def dict_update_def nth_append nth_list_update)
  have p3: "validate_inputs False sorter_name None verbose h
           = Inr (length h, h @ [[''verbose'' \<mapsto> Scalar (SBool verbose)]])"
    using assms by (simp add: validate_inputs_def Let_def dict_update_def)
  from p1 p2 p3 show ?thesis by blast
qed

theorem validate_inputs_verbose_in_place_witness:
  "''kilosort2_5'' \<in> set supported_sorters
   \<and> validate_inputs False ''kilosort2_5'' (Some 0) True example_heap
       = Inr (1, [[''kilosort2_5'' \<mapsto> Ref 1],
                  [''car'' \<mapsto> Scalar (SBool False), ''verbose'' \<mapsto> Scalar (SBool True)],
                  Map.empty])"
proof -
  have s: "''kilosort2_5'' \<in> set supported_sorters" by (simp add: supported_sorters_def)
  from validate_inputs_verbose_in_place
         [OF s, of False "Some 0" True example_heap 1 _ 0 1] s
  show ?thesis by (simp add: example_heap_def dict_update_def)
qed


section \<open>Properties of the batch submission\<close>

lemma run_jobs_pending:
  "pending c = [(Slurm_run_full_pipeline, kwargs)] \<Longrightarrow>
   pending (run_jobs n c) = [(Slurm_run_full_pipeline, kwargs)]
   \<and> submissions (run_jobs n c) = submissions c + n"
proof (induction n arbitrary: c)
  case 0
  then show ?case by simp
next
  case (Suc n)
  let ?c' = "call Slurm_run_full_pipeline kwargs (c\<lparr>pending := []\<rparr>)"
  have p: "pending ?c' = [(Slurm_run_full_pipeline, kwargs)]"
    by (simp add: slurm_run_full_pipeline_def)
  have s: "submissions ?c' = Suc (submissions c)"
    by (simp add: slurm_run_full_pipeline_def)
  from Suc.IH [OF p] s Suc.prems show ?case by simp
qed

text \<open>
  C6, evaluated. A task that is run with \<open>slurm_batch\<close> set, as the copy of the local
  variables that was submitted has it, takes the submitting branch again and returns:
  the assertion that \<open>slurm_batch\<close> is False stands after that branch, in
  \<open>validate_inputs\<close> and in \<open>run_full_pipeline\<close>, and is reached only with a value that
  is not true. The function \<open>run_full_pipeline\<close> of \<open>utils/slurm.py\<close> submits itself:
  however many jobs the worker runs, the same job is pending again and one more
  submission has been made.
\<close>

theorem batch_task_submits_again:
  "run_sorting ext sd sorter_name sorter_options m verbose True (h, w)
     = (Returned, h, w\<lparr>slurm_submissions := slurm_submissions w @ [True]\<rparr>)
   \<and> validate_inputs True sorter_name sorter_options verbose h = Inl AssertionError
   \<and> run_full_pipeline (SBool True) = Submits (SBool True)
   \<and> (run_full_pipeline b = Assertion_fails) = (\<not> truthy b \<and> b \<noteq> SBool False)
   \<and> pending (run_jobs n (slurm_run_full_pipeline kwargs \<lparr>pending = [], submissions = 0\<rparr>))
       = [(Slurm_run_full_pipeline, kwargs)]
   \<and> submissions (run_jobs n (slurm_run_full_pipeline kwargs \<lparr>pending = [], submissions = 0\<rparr>))
       = Suc n"
proof -
  have p: "pending (slurm_run_full_pipeline kwargs \<lparr>pending = [], submissions = 0\<rparr>)
             = [(Slurm_run_full_pipeline, kwargs)]"
    by (simp add: slurm_run_full_pipeline_def)
  have s: "submissions (slurm_run_full_pipeline kwargs \<lparr>pending = [], submissions = 0\<rparr>) = 1"
    by (simp add: slurm_run_full_pipeline_def)
  from run_jobs_pending [OF p, of n] s show ?thesis
    by (simp add: run_sorting_def validate_inputs_def run_full_pipeline_def)
qed

lemma run_in_slurm_not_installed:
  "run_in_slurm False default_slurm_options now slurm_opts func_to_run func_opts
     log_base_path st = (Inl RuntimeError, st)"
  by (simp add: run_in_slurm_def)

text \<open>
  C7, as amended. With SLURM installed and both \<open>"wait"\<close> and \<open>"env_name"\<close> among
  the options in effect (the defaults overwritten by the given dictionary),
  \<open>run_in_slurm\<close> submits the task once, calls \<open>wait\<close> on the handle of that job
  exactly when the \<open>"wait"\<close> option in effect is true, prints the start message with
  that handle, and returns \<open>None\<close>: the handle is not given to the caller.
\<close>

theorem run_in_slurm_submits_once:
  assumes "is_slurm_installed"
    and "(case slurm_opts of Opts d \<Rightarrow> default_slurm_options ++ d | Flag b \<Rightarrow> default_slurm_options)
           ''wait'' = Some should_wait"
    and "(case slurm_opts of Opts d \<Rightarrow> default_slurm_options ++ d | Flag b \<Rightarrow> default_slurm_options)
           ''env_name'' = Some env_name"
  shows "fst (run_in_slurm is_slurm_installed default_slurm_options now slurm_opts func_to_run
                func_opts log_base_path st) = Inr None
       \<and> jobs (snd (run_in_slurm is_slurm_installed default_slurm_options now slurm_opts
                func_to_run func_opts log_base_path st))
           = jobs st @ [(func_to_run, env_name, func_opts)]
       \<and> waited_on (snd (run_in_slurm is_slurm_installed default_slurm_options now slurm_opts
                func_to_run func_opts log_base_path st))
           = (if truthy should_wait then waited_on st @ [length (jobs st)] else waited_on st)
       \<and> start_messages (snd (run_in_slurm is_slurm_installed default_slurm_options now
                slurm_opts func_to_run func_opts log_base_path st))
           = start_messages st @ [(func_to_run, length (jobs st))]"
  using assms
  by (cases slurm_opts)
     (simp_all add: run_in_slurm_def Let_def make_job_log_output_path_def get_executor_def
        submit_def wait_def send_user_start_message_def)

theorem run_in_slurm_submits_once_witness:
  "waited_on (snd (run_in_slurm True example_default_slurm_options ''2023-08-01_12-00-00''
       (Opts [''wait'' \<mapsto> SBool True]) ''run_full_pipeline'' [] ''/data/logs''
       example_slurm_state)) = [0]
   \<and> jobs (snd (run_in_slurm True example_default_slurm_options ''2023-08-01_12-00-00''
       (Opts [''wait'' \<mapsto> SBool True]) ''run_full_pipeline'' [] ''/data/logs''
       example_slurm_state)) = [(''run_full_pipeline'', SStr ''spikewrap'', [])]
   \<and> waited_on (snd (run_in_slurm True example_default_slurm_options ''2023-08-01_12-00-00''
       (Flag True) ''run_full_pipeline'' [] ''/data/logs''
       example_slurm_state)) = []"
  using run_in_slurm_submits_once
     [where is_slurm_installed = True and slurm_opts = "Opts [''wait'' \<mapsto> SBool True]"
        and default_slurm_options = example_default_slurm_options
        and should_wait = "SBool True" and env_name = "SStr ''spikewrap''"
        and now = "''2023-08-01_12-00-00''" and func_to_run = "''run_full_pipeline''"
        and func_opts = "[]" and log_base_path = "''/data/logs''"
        and st = example_slurm_state]
    run_in_slurm_submits_once
     [where is_slurm_installed = True and slurm_opts = "Flag True"
        and default_slurm_options = example_default_slurm_options
        and should_wait = "SBool False" and env_name = "SStr ''spikewrap''"
        and now = "''2023-08-01_12-00-00''" and func_to_run = "''run_full_pipeline''"
        and func_opts = "[]" and log_base_path = "''/data/logs''"
        and st = example_slurm_state]
  by (simp add: example_default_slurm_options_def example_slurm_state_def)

text \<open>
  C7 as stated fails: with the \<open>"wait"\<close> option false the job is submitted under
  handle 0, and the call returns \<open>None\<close>, not that handle.
\<close>

theorem run_in_slurm_returns_none_counterexample:
  "jobs (snd (run_in_slurm True example_default_slurm_options ''2023-08-01_12-00-00''
       (Flag True) ''run_full_pipeline'' [] ''/data/logs'' example_slurm_state))
     = [(''run_full_pipeline'', SStr ''spikewrap'', [])]
   \<and> start_messages (snd (run_in_slurm True example_default_slurm_options
       ''2023-08-01_12-00-00'' (Flag True) ''run_full_pipeline'' [] ''/data/logs''
       example_slurm_state)) = [(''run_full_pipeline'', 0)]
   \<and> fst (run_in_slurm True example_default_slurm_options ''2023-08-01_12-00-00''
       (Flag True) ''run_full_pipeline'' [] ''/data/logs'' example_slurm_state) = Inr None
   \<and> fst (run_in_slurm True example_default_slurm_options ''2023-08-01_12-00-00''
       (Flag True) ''run_full_pipeline'' [] ''/data/logs'' example_slurm_state)
     \<noteq> Inr (Some 0)"
  by (simp add: run_in_slurm_def example_default_slurm_options_def example_slurm_state_def
      Let_def make_job_log_output_path_def get_executor_def submit_def wait_def
      send_user_start_message_def)


section \<open>Properties of the datetime order of paths\<close>

lemma decorate_all_keys:
  "\<forall>x\<in>set xs. key x = Inr (k x) \<Longrightarrow> decorate key xs = Inr (map (\<lambda>x. (k x, x)) xs)"
  by (induction xs) simp_all

lemma sort_key_decorated_aux:
  "sort_key fst (map (\<lambda>x. (k x, x)) xs) = map (\<lambda>x. (k x, x)) (sort_key k xs)"
proof (induction xs)
  case Nil
  then show ?case by simp
next
  case (Cons a xs)
  have "insort_key fst (k a, a) (map (\<lambda>x. (k x, x)) ys)
          = map (\<lambda>x. (k x, x)) (insort_key k a ys)" for ys
    by (induction ys) simp_all
  with Cons show ?case by simp
qed

lemma sort_key_decorated:
  "map snd (sort_key fst (map (\<lambda>x. (k x, x)) xs)) = sort_key k xs"
  by (simp add: sort_key_decorated_aux comp_def)

lemma sort_key_fixed_iff: "sort_key k xs = xs \<longleftrightarrow> sorted (map k xs)"
proof
  assume "sort_key k xs = xs"
  then show "sorted (map k xs)" using sorted_sort_key [of k xs] by simp
next
  assume "sorted (map k xs)"
  then show "sort_key k xs = xs" by (rule sort_key_id_if_sorted)
qed

lemma sorted_copy_all_keys:
  assumes "\<forall>x\<in>set xs. key x = Inr (k x)"
  shows "sorted_copy key xs = Inr (sort_key k xs)"
  using decorate_all_keys [OF assms] by (simp add: sorted_copy_def sort_key_decorated)

text \<open>
  For paths that all exist, the check for \<open>"creation"\<close> holds exactly of the lists in
  ascending order of modification time, and the check for \<open>"modification"\<close> of those
  in ascending order of creation time.
\<close>

lemma creation_check_is_mtime_order:
  assumes "\<forall>p\<in>set ps. fs p = Some (t p)"
  shows "list_of_files_are_in_datetime_order fs ps ''creation''
           = Inr (sorted (map (\<lambda>p. mtime (t p)) ps))"
    and "list_of_files_are_in_datetime_order fs ps ''modification''
           = Inr (sorted (map (\<lambda>p. ctime (t p)) ps))"
    and "sort_list_of_paths_by_datetime_order fs ps = Inr (sort_key (\<lambda>p. ctime (t p)) ps)"
proof -
  have m: "\<forall>p\<in>set ps. getmtime fs p = Inr (mtime (t p))"
    using assms by (simp add: getmtime_def)
  have c: "\<forall>p\<in>set ps. getctime fs p = Inr (ctime (t p))"
    using assms by (simp add: getctime_def)
  show "list_of_files_are_in_datetime_order fs ps ''creation''
           = Inr (sorted (map (\<lambda>p. mtime (t p)) ps))"
    using sorted_copy_all_keys [OF m] sort_key_fixed_iff [of "\<lambda>p. mtime (t p)" ps]
    by (auto simp add: list_of_files_are_in_datetime_order_def)
  show "list_of_files_are_in_datetime_order fs ps ''modification''
           = Inr (sorted (map (\<lambda>p. ctime (t p)) ps))"
    using sorted_copy_all_keys [OF c] sort_key_fixed_iff [of "\<lambda>p. ctime (t p)" ps]
    by (auto simp add: list_of_files_are_in_datetime_order_def)
  show "sort_list_of_paths_by_datetime_order fs ps = Inr (sort_key (\<lambda>p. ctime (t p)) ps)"
    using sorted_copy_all_keys [OF c] by (simp add: sort_list_of_paths_by_datetime_order_def)
qed

text \<open>
  C8, evaluated. \<open>/raw/run1\<close> was created before \<open>/raw/run2\<close>, and sorting by
  creation time keeps the two in that order. Asked whether that list is in order of
  \<open>"creation"\<close>, the check compares modification times and answers False; it answers
  True for the reversed list; and asked about \<open>"modification"\<close> it compares creation
  times.
\<close>

theorem creation_order_checked_by_modification_time:
  "sort_list_of_paths_by_datetime_order example_file_system [''/raw/run1'', ''/raw/run2'']
     = Inr [''/raw/run1'', ''/raw/run2'']
   \<and> list_of_files_are_in_datetime_order example_file_system [''/raw/run1'', ''/raw/run2'']
       ''creation'' = Inr False
   \<and> list_of_files_are_in_datetime_order example_file_system [''/raw/run2'', ''/raw/run1'']
       ''creation'' = Inr True
   \<and> list_of_files_are_in_datetime_order example_file_system [''/raw/run1'', ''/raw/run2'']
       ''modification'' = Inr True"
  by (simp add: sort_list_of_paths_by_datetime_order_def list_of_files_are_in_datetime_order_def
      sorted_copy_def getctime_def getmtime_def example_file_system_def)

section \<open>Properties of the step number resolution\<close>

text \<open>
  C4, evaluated. On eleven steps numbered 0 to 10 the swc\_ephys version reads the
  first character of \<open>"10-..."\<close> as step 1, takes 9 for the last step and fails its own
  assertion, where the spikewrap version returns the artifact of step 10. On keys with
  a gap and a duplicate (\<open>0\<close>, \<open>2\<close>, \<open>2\<close>) the spikewrap version returns the first of the
  two artifacts numbered 2, as the failed assertion is caught.
\<close>

theorem last_step_of_eleven_steps:
  "get_dict_value_from_step_num_swc_ephys example_steps ''last'' = Inl AssertionError
   \<and> get_dict_value_from_step_num_spikewrap example_steps ''last''
       = Inr (10, ''10-raw-a-b-c-d-e-f-g-h-i-j'')
   \<and> get_dict_value_from_step_num_swc_ephys (take 10 example_steps) ''last''
       = Inr (9, ''9-raw-a-b-c-d-e-f-g-h-i'')
   \<and> get_dict_value_from_step_num_spikewrap
         [(''0-raw'', 0::nat), (''2-raw-a'', 1), (''2-raw-b'', 2)] ''last''
       = Inr (1, ''2-raw-a'')
   \<and> get_dict_value_from_step_num_swc_ephys
         [(''0-raw'', 0::nat), (''2-raw-a'', 1), (''2-raw-b'', 2)] ''last''
       = Inl AssertionError"
  by (simp add: get_dict_value_from_step_num_swc_ephys_def
      get_dict_value_from_step_num_spikewrap_def example_steps_def last_step_num_def
      py_int_def digit_of_def py_str.simps digit_char_def getitem_def split_first_def Let_def)

end
